theory Spec2Isabelle
  imports Main "HOL-Library.AList"
begin

section \<open>The flow manager of kytos/of.flow-manager (main.py)\<close>

text \<open>
  The development embeds the two classes of \<^verbatim>\<open>main.py\<close>: \<^verbatim>\<open>FlowManager\<close>, which
  builds OpenFlow messages and keeps the per-switch cache \<^verbatim>\<open>self.flows\<close>, and \<^verbatim>\<open>Main\<close>,
  whose REST handlers call it for one switch or for every switch of the controller.
  Every method is a function from the state before the call to a pair: what the call
  returned or raised, and the state it left behind (an exception leaves the state as
  it was when it was raised).
\<close>

subsection \<open>Python values and exceptions\<close>

type_synonym dpid = string

type_synonym connection = nat

datatype error = KeyError | AttributeError | UnknownSwitchError | MalformedFlowError

type_synonym 'a result = "error + 'a"

text \<open>
  The enumerations of pyof (OpenFlow 1.0) that the source names: the commands of a
  flow-mod message and the kinds of statistics.
\<close>

datatype FlowModCommand =
  OFPFC_ADD | OFPFC_MODIFY | OFPFC_MODIFY_STRICT | OFPFC_DELETE | OFPFC_DELETE_STRICT

datatype StatsTypes =
  OFPST_DESC | OFPST_FLOW | OFPST_AGGREGATE | OFPST_TABLE | OFPST_PORT | OFPST_QUEUE
  | OFPST_VENDOR

text \<open>
  A match is the list of the header fields it constrains, each with its value.
  \<^verbatim>\<open>Match()\<close>, built with no argument, constrains none: the wildcard match.
\<close>

type_synonym ofp_match = "(string \<times> nat) list"

definition Match :: ofp_match where
  "Match = []"

text \<open>
  \<^verbatim>\<open>kyco.core.flow.Flow\<close>: the attributes the specification lists. The field
  \<open>flow_id\<close> is the attribute \<^verbatim>\<open>id\<close> of the source.
\<close>

record flow =
  flow_id :: string
  flow_match :: ofp_match
  priority :: nat
  actions :: "string list"
  idle_timeout :: nat
  hard_timeout :: nat
  cookie :: nat

record flow_mod =
  command :: FlowModCommand
  flow_of :: flow

text \<open>
  Modelled from the spec: \<^verbatim>\<open>Flow.as_flow_mod\<close> belongs to the controller library and
  is not among the sources. The specification (4.1, toInstallCommand) makes it a pure,
  deterministic function of the flow and the command: the message carries both.
\<close>

definition as_flow_mod :: "flow \<Rightarrow> FlowModCommand \<Rightarrow> flow_mod" where
  "as_flow_mod f cmd = \<lparr>command = cmd, flow_of = f\<rparr>"

text \<open>
  The values the cache can hold and the loops can meet. Python is dynamically typed:
  a method call on a value that has no such method raises \<^verbatim>\<open>AttributeError\<close>.
\<close>

datatype pyval = PNone | PStr string | PFlow flow | PList "pyval list"

text \<open>\<^verbatim>\<open>v.as_flow_mod(cmd)\<close>: only a Flow has the method.\<close>

fun py_as_flow_mod :: "pyval \<Rightarrow> FlowModCommand \<Rightarrow> flow_mod result" where
  "py_as_flow_mod (PFlow f) cmd = Inr (as_flow_mod f cmd)"
| "py_as_flow_mod v cmd = Inl AttributeError"

text \<open>\<^verbatim>\<open>v.id\<close>: only a Flow has the attribute.\<close>

fun py_id :: "pyval \<Rightarrow> string result" where
  "py_id (PFlow f) = Inr (flow_id f)"
| "py_id v = Inl AttributeError"

text \<open>
  A dictionary is an association list with the keys in insertion order.
  \<^verbatim>\<open>d[k]\<close> raises \<^verbatim>\<open>KeyError\<close> on a key that is absent; \<^verbatim>\<open>d[k] = v\<close> is
  \<^const>\<open>AList.update\<close>; \<^verbatim>\<open>for k in d\<close> runs over the keys, which are strings here.
\<close>

type_synonym py_dict = "(dpid \<times> pyval) list"

definition dict_getitem :: "py_dict \<Rightarrow> dpid \<Rightarrow> pyval result" where
  "dict_getitem d k = (case map_of d k of None \<Rightarrow> Inl KeyError | Some v \<Rightarrow> Inr v)"

definition dict_iter :: "py_dict \<Rightarrow> pyval list" where
  "dict_iter d = map (\<lambda>kv. PStr (fst kv)) d"

text \<open>\<^verbatim>\<open>v.append(x)\<close>: only a list has the method; \<open>x\<close> becomes its last element.\<close>

fun py_append :: "pyval \<Rightarrow> pyval \<Rightarrow> pyval result" where
  "py_append (PList xs) x = Inr (PList (xs @ [x]))"
| "py_append v x = Inl AttributeError"

subsection \<open>Messages, events and the controller\<close>

datatype stats_request = StatsRequest (request_body_type: StatsTypes) (request_match: ofp_match)

datatype message = FlowModMessage flow_mod | StatsRequestMessage stats_request

text \<open>
  \<^verbatim>\<open>KycoEvent(name=..., content={'destination': ..., 'message': ...})\<close>, an outbound
  event.
\<close>

record KycoEvent =
  name :: string
  destination :: connection
  message :: message

record switch =
  connection :: connection

text \<open>
  The controller is an external collaborator. The source uses three things of it:
  the enumeration \<^verbatim>\<open>controller.switches\<close> (the dpids in iteration order), the lookup
  \<^verbatim>\<open>controller.get_switch_by_dpid\<close> and the queue \<^verbatim>\<open>controller.buffers.msg_out\<close>.
  The enumeration and the table behind the lookup are kept apart, so that the model
  covers a controller whose lookup fails for a dpid it still enumerates.
\<close>

record controller =
  switches :: "dpid list"
  resolve :: "dpid \<Rightarrow> switch option"
  msg_out :: "KycoEvent list"

text \<open>
  Modelled from the spec: \<^verbatim>\<open>get_switch_by_dpid\<close> is a method of the controller and
  is not among the sources. The specification (6, 7) has the lookup return the switch
  handle and fail with \<^verbatim>\<open>UnknownSwitchError\<close> when the dpid does not resolve.
\<close>

definition get_switch_by_dpid :: "controller \<Rightarrow> dpid \<Rightarrow> switch result" where
  "get_switch_by_dpid c d =
     (case resolve c d of None \<Rightarrow> Inl UnknownSwitchError | Some sw \<Rightarrow> Inr sw)"

text \<open>
  An inbound statistics reply: \<^verbatim>\<open>event.content['message']\<close> and \<^verbatim>\<open>['switch']\<close>.
  The field \<open>body_type\<close> is the member of \<^verbatim>\<open>StatsTypes\<close> that the source's test
  \<^verbatim>\<open>msg.body_type.value is StatsTypes.OFPST_FLOW\<close> compares: the test holds exactly
  for a reply of the flow kind.
\<close>

record 'st stats_reply =
  body_type :: StatsTypes
  body :: "'st list"

record 'st reply_event =
  content_message :: "'st stats_reply"
  content_switch :: dpid

text \<open>
  The state of a \<^verbatim>\<open>FlowManager\<close>. \<^verbatim>\<open>Main\<close> holds the same controller object and
  the flow manager, so this record is the state of \<^verbatim>\<open>Main\<close> as well.
\<close>

record flow_manager =
  controller :: controller
  flows :: py_dict

text \<open>\<^verbatim>\<open>FlowManager.__init__\<close>: the cache starts as the empty dictionary.\<close>

definition FlowManager_init :: "controller \<Rightarrow> flow_manager" where
  "FlowManager_init c = \<lparr>controller = c, flows = []\<rparr>"

text \<open>\<^verbatim>\<open>self.controller.buffers.msg_out.put(event_out)\<close>: the event joins the queue.\<close>

definition msg_out_put :: "flow_manager \<Rightarrow> KycoEvent \<Rightarrow> flow_manager" where
  "msg_out_put st ev =
     st\<lparr>controller := (controller st)\<lparr>msg_out := msg_out (controller st) @ [ev]\<rparr>\<rparr>"

subsection \<open>FlowManager\<close>

definition FlowManager_install_new_flow ::
  "flow_manager \<Rightarrow> flow \<Rightarrow> dpid \<Rightarrow> unit result \<times> flow_manager" where
  "FlowManager_install_new_flow st flow dpid =
     (case get_switch_by_dpid (controller st) dpid of
        Inl e \<Rightarrow> (Inl e, st)
      | Inr sw \<Rightarrow>
          (let flow_mod = as_flow_mod flow OFPFC_ADD;
               event_out = \<lparr>name = ''kytos/of.flow-manager.messages.out.ofpt_flow_mod'',
                            destination = connection sw,
                            message = FlowModMessage flow_mod\<rparr>
           in (Inr (), msg_out_put st event_out)))"

definition FlowManager_dump_flows ::
  "flow_manager \<Rightarrow> dpid \<Rightarrow> unit result \<times> flow_manager" where
  "FlowManager_dump_flows st dpid =
     (case get_switch_by_dpid (controller st) dpid of
        Inl e \<Rightarrow> (Inl e, st)
      | Inr sw \<Rightarrow>
          (let stats_request = StatsRequest OFPST_FLOW Match;
               event_out = \<lparr>name = ''kytos/of.flow-manager.messages.out.ofpt_stats_request'',
                            destination = connection sw,
                            message = StatsRequestMessage stats_request\<rparr>
           in (Inr (), msg_out_put st event_out)))"

text \<open>
  The loop of \<^verbatim>\<open>clear_flows\<close> over the values \<^verbatim>\<open>for flow in self.flows\<close> yields.
\<close>

fun clear_flows_loop ::
  "switch \<Rightarrow> pyval list \<Rightarrow> flow_manager \<Rightarrow> unit result \<times> flow_manager" where
  "clear_flows_loop sw [] st = (Inr (), st)"
| "clear_flows_loop sw (flow # rest) st =
     (case py_as_flow_mod flow OFPFC_DELETE of
        Inl e \<Rightarrow> (Inl e, st)
      | Inr flow_mod \<Rightarrow>
          (let event_out = \<lparr>name = ''kytos/of.flow-manager.messages.out.ofpt_flow_mod'',
                            destination = connection sw,
                            message = FlowModMessage flow_mod\<rparr>
           in clear_flows_loop sw rest (msg_out_put st event_out)))"

text \<open>
  \<^verbatim>\<open>for flow in self.flows\<close>: \<^verbatim>\<open>self.flows\<close> is the dictionary itself, so the loop
  runs over its keys.
\<close>

definition FlowManager_clear_flows ::
  "flow_manager \<Rightarrow> dpid \<Rightarrow> unit result \<times> flow_manager" where
  "FlowManager_clear_flows st dpid =
     (case get_switch_by_dpid (controller st) dpid of
        Inl e \<Rightarrow> (Inl e, st)
      | Inr sw \<Rightarrow> clear_flows_loop sw (dict_iter (flows st)) st)"

fun delete_flow_loop ::
  "switch \<Rightarrow> string \<Rightarrow> pyval list \<Rightarrow> flow_manager \<Rightarrow> unit result \<times> flow_manager" where
  "delete_flow_loop sw fid [] st = (Inr (), st)"
| "delete_flow_loop sw fid (flow # rest) st =
     (case py_id flow of
        Inl e \<Rightarrow> (Inl e, st)
      | Inr i \<Rightarrow>
          if i = fid then
            (case py_as_flow_mod flow OFPFC_DELETE of
               Inl e \<Rightarrow> (Inl e, st)
             | Inr flow_mod \<Rightarrow>
                 (let event_out = \<lparr>name = ''kytos/of.flow-manager.messages.out.ofpt_flow_mod'',
                                   destination = connection sw,
                                   message = FlowModMessage flow_mod\<rparr>
                  in delete_flow_loop sw fid rest (msg_out_put st event_out)))
          else delete_flow_loop sw fid rest st)"

definition FlowManager_delete_flow ::
  "flow_manager \<Rightarrow> string \<Rightarrow> dpid \<Rightarrow> unit result \<times> flow_manager" where
  "FlowManager_delete_flow st fid dpid =
     (case get_switch_by_dpid (controller st) dpid of
        Inl e \<Rightarrow> (Inl e, st)
      | Inr sw \<Rightarrow> delete_flow_loop sw fid (dict_iter (flows st)) st)"

text \<open>
  \<^verbatim>\<open>_get_flows\<close>: the loop appends the decoding of each entry to a list that starts
  empty. \<^verbatim>\<open>Flow.from_flow_stats\<close> belongs to the controller library; it is the
  parameter \<open>from_flow_stats\<close>.
\<close>

fun get_flows_loop :: "('st \<Rightarrow> flow) \<Rightarrow> flow list \<Rightarrow> 'st list \<Rightarrow> flow list" where
  "get_flows_loop from_flow_stats acc [] = acc"
| "get_flows_loop from_flow_stats acc (flow_stat # rest) =
     get_flows_loop from_flow_stats (acc @ [from_flow_stats flow_stat]) rest"

definition FlowManager_get_flows :: "('st \<Rightarrow> flow) \<Rightarrow> 'st list \<Rightarrow> flow list" where
  "FlowManager_get_flows from_flow_stats flow_stats = get_flows_loop from_flow_stats [] flow_stats"

text \<open>
  \<^verbatim>\<open>handle_flow_stats_reply\<close>. The test \<^verbatim>\<open>self.flows[switch_dpid] is None\<close> reads the
  dictionary with a subscript, which raises on an absent key; the decoded list is
  handed to \<^verbatim>\<open>append\<close> as one value.
\<close>

definition FlowManager_handle_flow_stats_reply ::
  "('st \<Rightarrow> flow) \<Rightarrow> flow_manager \<Rightarrow> 'st reply_event \<Rightarrow> unit result \<times> flow_manager" where
  "FlowManager_handle_flow_stats_reply from_flow_stats st event =
     (let msg = content_message event in
      if body_type msg = OFPST_FLOW then
        (let flow_stats = body msg;
             decoded = FlowManager_get_flows from_flow_stats flow_stats;
             switch_dpid = content_switch event
         in case dict_getitem (flows st) switch_dpid of
              Inl e \<Rightarrow> (Inl e, st)
            | Inr v \<Rightarrow>
                (let st1 = (if v = PNone
                            then st\<lparr>flows := AList.update switch_dpid (PList []) (flows st)\<rparr>
                            else st)
                 in case dict_getitem (flows st1) switch_dpid of
                      Inl e \<Rightarrow> (Inl e, st1)
                    | Inr l \<Rightarrow>
                        (case py_append l (PList (map PFlow decoded)) of
                           Inl e \<Rightarrow> (Inl e, st1)
                         | Inr l' \<Rightarrow>
                             (Inr (), st1\<lparr>flows := AList.update switch_dpid l' (flows st1)\<rparr>))))
      else (Inr (), st))"

subsection \<open>Main\<close>

text \<open>
  \<^verbatim>\<open>for switch_dpid in self.controller.switches: call(switch_dpid)\<close>: the calls run
  in the order of the enumeration, and nothing catches what a call raises.
\<close>

fun for_each_switch ::
  "(flow_manager \<Rightarrow> dpid \<Rightarrow> unit result \<times> flow_manager) \<Rightarrow> dpid list \<Rightarrow> flow_manager
     \<Rightarrow> unit result \<times> flow_manager" where
  "for_each_switch call [] st = (Inr (), st)"
| "for_each_switch call (switch_dpid # rest) st =
     (case call st switch_dpid of
        (Inl e, st') \<Rightarrow> (Inl e, st')
      | (Inr u, st') \<Rightarrow> for_each_switch call rest st')"

text \<open>\<^verbatim>\<open>Main.execute\<close>, run every \<^verbatim>\<open>STATS_INTERVAL\<close> seconds.\<close>

definition Main_execute :: "flow_manager \<Rightarrow> unit result \<times> flow_manager" where
  "Main_execute st = for_each_switch FlowManager_dump_flows (switches (controller st)) st"

fun retrieve_flows_loop :: "py_dict \<Rightarrow> pyval list \<Rightarrow> dpid list \<Rightarrow> pyval list result" where
  "retrieve_flows_loop d acc [] = Inr acc"
| "retrieve_flows_loop d acc (switch_dpid # rest) =
     (case dict_getitem d switch_dpid of
        Inl e \<Rightarrow> Inl e
      | Inr v \<Rightarrow> retrieve_flows_loop d (acc @ [v]) rest)"

definition Main_retrieve_flows :: "flow_manager \<Rightarrow> dpid option \<Rightarrow> pyval list result" where
  "Main_retrieve_flows st dpid =
     (case dpid of
        Some d \<Rightarrow>
          (case dict_getitem (flows st) d of
             Inl e \<Rightarrow> Inl e
           | Inr v \<Rightarrow> Inr ([] @ [v]))
      | None \<Rightarrow> retrieve_flows_loop (flows st) [] (map fst (flows st)))"

text \<open>
  \<^verbatim>\<open>Main.insert_flow\<close>. \<^verbatim>\<open>request.get_json()\<close> is the argument \<open>json_content\<close>, and
  \<^verbatim>\<open>Flow.from_json\<close>, of the controller library, is the parameter \<open>from_json\<close>, which
  may raise.
\<close>

definition Main_insert_flow ::
  "('j \<Rightarrow> flow result) \<Rightarrow> flow_manager \<Rightarrow> 'j \<Rightarrow> dpid option \<Rightarrow> unit result \<times> flow_manager" where
  "Main_insert_flow from_json st json_content dpid =
     (case from_json json_content of
        Inl e \<Rightarrow> (Inl e, st)
      | Inr received_flow \<Rightarrow>
          (case dpid of
             Some d \<Rightarrow> FlowManager_install_new_flow st received_flow d
           | None \<Rightarrow>
               for_each_switch (\<lambda>s switch_dpid. FlowManager_install_new_flow s received_flow switch_dpid)
                 (switches (controller st)) st))"

definition Main_clear_flows :: "flow_manager \<Rightarrow> dpid option \<Rightarrow> unit result \<times> flow_manager" where
  "Main_clear_flows st dpid =
     (case dpid of
        Some d \<Rightarrow> FlowManager_clear_flows st d
      | None \<Rightarrow> for_each_switch FlowManager_clear_flows (switches (controller st)) st)"

definition Main_delete_flow ::
  "flow_manager \<Rightarrow> string \<Rightarrow> dpid option \<Rightarrow> unit result \<times> flow_manager" where
  "Main_delete_flow st fid dpid =
     (case dpid of
        Some d \<Rightarrow> FlowManager_delete_flow st fid d
      | None \<Rightarrow>
          for_each_switch (\<lambda>s switch_dpid. FlowManager_delete_flow s fid switch_dpid)
            (switches (controller st)) st)"

subsection \<open>The events built and some concrete data\<close>

text \<open>The event that \<^verbatim>\<open>install_new_flow\<close> builds for a switch and a flow.\<close>

definition add_event :: "switch \<Rightarrow> flow \<Rightarrow> KycoEvent" where
  "add_event sw f =
     \<lparr>name = ''kytos/of.flow-manager.messages.out.ofpt_flow_mod'',
      destination = connection sw,
      message = FlowModMessage \<lparr>command = OFPFC_ADD, flow_of = f\<rparr>\<rparr>"

text \<open>
  Concrete data for the examples: a flow with a given identifier, and a controller that
  enumerates the dpids \<open>ds\<close>, resolves the dpids of \<open>table\<close> to their connections and
  has an empty queue.
\<close>

definition example_flow :: "string \<Rightarrow> flow" where
  "example_flow i =
     \<lparr>flow_id = i, flow_match = Match, priority = 0, actions = [], idle_timeout = 0,
      hard_timeout = 0, cookie = 0\<rparr>"

definition example_controller :: "dpid list \<Rightarrow> (dpid \<times> connection) list \<Rightarrow> controller" where
  "example_controller ds table =
     \<lparr>switches = ds,
      resolve = (\<lambda>d. case map_of table d of None \<Rightarrow> None | Some c \<Rightarrow> Some \<lparr>connection = c\<rparr>),
      msg_out = []\<rparr>"

section \<open>Properties\<close>

subsection \<open>The loops\<close>

lemma get_flows_loop_map: "get_flows_loop f acc xs = acc @ map f xs"
  by (induction xs arbitrary: acc) simp_all

lemma FlowManager_get_flows_map: "FlowManager_get_flows f xs = map f xs"
  by (simp add: FlowManager_get_flows_def get_flows_loop_map)

text \<open>
  The loops of \<^verbatim>\<open>clear_flows\<close> and \<^verbatim>\<open>delete_flow\<close> run over the keys of the cache.
  A key is a dpid, which has neither \<^verbatim>\<open>as_flow_mod\<close> nor \<^verbatim>\<open>id\<close>: on a cache with an
  entry the first iteration raises, before any event is put on the queue.
\<close>

lemma clear_flows_loop_dict_iter:
  "clear_flows_loop sw (dict_iter d) st = (if d = [] then Inr () else Inl AttributeError, st)"
  by (cases d) (simp_all add: dict_iter_def)

lemma delete_flow_loop_dict_iter:
  "delete_flow_loop sw fid (dict_iter d) st = (if d = [] then Inr () else Inl AttributeError, st)"
  by (cases d) (simp_all add: dict_iter_def)

lemma clear_flows_keeps_state: "snd (FlowManager_clear_flows st dpid) = st"
  by (simp add: FlowManager_clear_flows_def clear_flows_loop_dict_iter split: sum.split)

lemma delete_flow_keeps_state: "snd (FlowManager_delete_flow st fid dpid) = st"
  by (simp add: FlowManager_delete_flow_def delete_flow_loop_dict_iter split: sum.split)

lemma for_each_switch_append:
  "for_each_switch call (xs @ ys) st =
     (case for_each_switch call xs st of
        (Inl e, st') \<Rightarrow> (Inl e, st')
      | (Inr u, st') \<Rightarrow> for_each_switch call ys st')"
  by (induction xs arbitrary: st) (auto split: prod.split sum.split)

lemma for_each_switch_first_failure:
  assumes "for_each_switch call pre st = (Inr (), st1)" and "call st1 d = (Inl e, st2)"
  shows "for_each_switch call (pre @ d # post) st = (Inl e, st2)"
  using assms by (simp add: for_each_switch_append)

lemma resolve_msg_out_put [simp]:
  "resolve (controller (msg_out_put st ev)) = resolve (controller st)"
  by (simp add: msg_out_put_def)

lemma install_new_flow_resolved:
  assumes "resolve (controller st) d = Some sw"
  shows "FlowManager_install_new_flow st f d = (Inr (), msg_out_put st (add_event sw f))"
  using assms
  by (simp add: FlowManager_install_new_flow_def get_switch_by_dpid_def as_flow_mod_def
      add_event_def)

lemma install_fan_out:
  assumes "\<And>d. d \<in> set ds \<Longrightarrow> resolve (controller st) d = Some (sw d)"
  shows "for_each_switch (\<lambda>s x. FlowManager_install_new_flow s f x) ds st =
           (Inr (), st\<lparr>controller := (controller st)
                      \<lparr>msg_out := msg_out (controller st) @ map (\<lambda>d. add_event (sw d) f) ds\<rparr>\<rparr>)"
  using assms
proof (induction ds arbitrary: st)
  case Nil
  then show ?case by simp
next
  case (Cons d ds)
  have first: "FlowManager_install_new_flow st f d = (Inr (), msg_out_put st (add_event (sw d) f))"
    by (rule install_new_flow_resolved) (simp add: Cons.prems)
  have rest: "for_each_switch (\<lambda>s x. FlowManager_install_new_flow s f x) ds
                (msg_out_put st (add_event (sw d) f)) =
              (Inr (), (msg_out_put st (add_event (sw d) f))
                 \<lparr>controller := (controller (msg_out_put st (add_event (sw d) f)))
                    \<lparr>msg_out := msg_out (controller (msg_out_put st (add_event (sw d) f)))
                                 @ map (\<lambda>d. add_event (sw d) f) ds\<rparr>\<rparr>)"
    by (rule Cons.IH) (simp add: Cons.prems)
  show ?case
    by (simp add: first rest) (simp add: msg_out_put_def)
qed

lemma retrieve_flows_loop_keys:
  assumes "set ks \<subseteq> fst ` set d"
  shows "retrieve_flows_loop d acc ks = Inr (acc @ map (\<lambda>k. the (map_of d k)) ks)"
  using assms
proof (induction ks arbitrary: acc)
  case Nil
  then show ?case by simp
next
  case (Cons k ks)
  then obtain v where "map_of d k = Some v"
    by (metis list.set_intros(1) map_of_eq_None_iff not_Some_eq subsetD)
  with Cons show ?case
    by (simp add: dict_getitem_def)
qed

lemma map_of_keys_distinct:
  assumes "distinct (map fst d)"
  shows "map (\<lambda>k. the (map_of d k)) (map fst d) = map snd d"
  using assms
proof (induction d)
  case Nil
  then show ?case by simp
next
  case (Cons kv d)
  have "map (\<lambda>k. the (map_of (kv # d) k)) (map fst d) = map (\<lambda>k. the (map_of d k)) (map fst d)"
    using Cons.prems by (cases kv) (auto intro!: map_cong)
  with Cons show ?case
    by (cases kv) simp
qed

subsection \<open>Statistics replies\<close>

text \<open>
  What the handler does with a reply of the flow kind: on a switch with no entry the
  subscript of the test raises \<^verbatim>\<open>KeyError\<close> and the cache is left as it was; on an
  entry that is a list, the decoded flows become one more element of that list.
\<close>

lemma handle_flow_stats_reply_absent:
  assumes "map_of (flows st) (content_switch event) = None"
    and "body_type (content_message event) = OFPST_FLOW"
  shows "FlowManager_handle_flow_stats_reply from_flow_stats st event = (Inl KeyError, st)"
  using assms by (simp add: FlowManager_handle_flow_stats_reply_def dict_getitem_def Let_def)

lemma handle_flow_stats_reply_appends:
  assumes "map_of (flows st) (content_switch event) = Some (PList old)"
    and "body_type (content_message event) = OFPST_FLOW"
  shows "FlowManager_handle_flow_stats_reply from_flow_stats st event =
           (Inr (), st\<lparr>flows := AList.update (content_switch event)
                      (PList (old @ [PList (map PFlow (map from_flow_stats (body (content_message event))))]))
                      (flows st)\<rparr>)"
  using assms
  by (simp add: FlowManager_handle_flow_stats_reply_def dict_getitem_def Let_def
      FlowManager_get_flows_map)

text \<open>
  The handler never gives the cache a new key. It is the only method that writes the
  cache, which starts empty: no call sequence from \<^const>\<open>FlowManager_init\<close> gives the
  cache an entry.
\<close>

lemma handle_flow_stats_reply_keeps_keys:
  "map fst (flows (snd (FlowManager_handle_flow_stats_reply from_flow_stats st event))) =
   map fst (flows st)"
proof (cases "body_type (content_message event) = OFPST_FLOW")
  case False
  then show ?thesis
    by (simp add: FlowManager_handle_flow_stats_reply_def Let_def)
next
  case flow_reply: True
  show ?thesis
  proof (cases "map_of (flows st) (content_switch event)")
    case None
    with flow_reply show ?thesis
      by (simp add: handle_flow_stats_reply_absent)
  next
    case (Some v)
    then have key: "content_switch event \<in> set (map fst (flows st))"
      by (metis map_of_eq_None_iff option.distinct(1) set_map)
    show ?thesis
    proof (cases v)
      case PNone
      with flow_reply Some key show ?thesis
        by (simp add: FlowManager_handle_flow_stats_reply_def dict_getitem_def Let_def
            AList.update_conv' AList.update_keys)
    next
      case (PStr s)
      with flow_reply Some show ?thesis
        by (simp add: FlowManager_handle_flow_stats_reply_def dict_getitem_def Let_def)
    next
      case (PFlow f)
      with flow_reply Some show ?thesis
        by (simp add: FlowManager_handle_flow_stats_reply_def dict_getitem_def Let_def)
    next
      case (PList old)
      with flow_reply Some key show ?thesis
        by (simp add: handle_flow_stats_reply_appends AList.update_keys)
    qed
  qed
qed

lemma dump_flows_keeps_flows: "flows (snd (FlowManager_dump_flows st dpid)) = flows st"
  by (simp add: FlowManager_dump_flows_def msg_out_put_def Let_def split: sum.split)

text \<open>
  C1: the specification has the entry of switch D equal to the decoded flows
  \<open>[f1, f2]\<close> after a flow-statistics reply, also on the first reply. The source does
  otherwise at both points. On the first reply for \<^verbatim>\<open>D1\<close> (the cache as
  \<^verbatim>\<open>__init__\<close> leaves it) the handler raises \<^verbatim>\<open>KeyError\<close> and stores nothing. On
  an entry that holds \<open>[F0]\<close> it leaves \<open>[F0, [F1, F2]]\<close>: the old content followed by
  the decoded list as a single element.
\<close>

theorem handle_flow_stats_reply_defect:
  "FlowManager_handle_flow_stats_reply (\<lambda>s. s)
     (FlowManager_init (example_controller [''D1''] [(''D1'', 1)]))
     \<lparr>content_message = \<lparr>body_type = OFPST_FLOW, body = [example_flow ''F1'', example_flow ''F2'']\<rparr>,
      content_switch = ''D1''\<rparr>
   = (Inl KeyError, FlowManager_init (example_controller [''D1''] [(''D1'', 1)])) \<and>
   FlowManager_handle_flow_stats_reply (\<lambda>s. s)
     \<lparr>controller = example_controller [''D1''] [(''D1'', 1)],
      flows = [(''D1'', PList [PFlow (example_flow ''F0'')])]\<rparr>
     \<lparr>content_message = \<lparr>body_type = OFPST_FLOW, body = [example_flow ''F1'', example_flow ''F2'']\<rparr>,
      content_switch = ''D1''\<rparr>
   = (Inr (),
      \<lparr>controller = example_controller [''D1''] [(''D1'', 1)],
       flows = [(''D1'', PList [PFlow (example_flow ''F0''),
                               PList [PFlow (example_flow ''F1''), PFlow (example_flow ''F2'')]])]\<rparr>)"
  by (simp add: FlowManager_handle_flow_stats_reply_def FlowManager_init_def dict_getitem_def
      FlowManager_get_flows_def Let_def)

text \<open>
  C9: a statistics reply whose body type is not \<^verbatim>\<open>OFPST_FLOW\<close> is ignored: the handler
  returns normally and the whole state, the cache included, is the one before the call.
\<close>

theorem handle_flow_stats_reply_ignores_other_stats:
  assumes "body_type (content_message event) \<noteq> OFPST_FLOW"
  shows "FlowManager_handle_flow_stats_reply from_flow_stats st event = (Inr (), st)"
  using assms by (simp add: FlowManager_handle_flow_stats_reply_def Let_def)

theorem handle_flow_stats_reply_ignores_other_stats_witness:
  "OFPST_PORT \<noteq> OFPST_FLOW \<and>
   FlowManager_handle_flow_stats_reply (\<lambda>s. s)
     \<lparr>controller = example_controller [''D1''] [(''D1'', 1)],
      flows = [(''D1'', PList [PFlow (example_flow ''F0'')])]\<rparr>
     \<lparr>content_message = \<lparr>body_type = OFPST_PORT, body = [example_flow ''F1'']\<rparr>,
      content_switch = ''D1''\<rparr>
   = (Inr (),
      \<lparr>controller = example_controller [''D1''] [(''D1'', 1)],
       flows = [(''D1'', PList [PFlow (example_flow ''F0'')])]\<rparr>)"
  using handle_flow_stats_reply_ignores_other_stats
    [of "\<lparr>content_message = \<lparr>body_type = OFPST_PORT, body = [example_flow ''F1'']\<rparr>,
          content_switch = ''D1''\<rparr>"]
  by simp

subsection \<open>Installing a flow\<close>

text \<open>
  C4: \<^verbatim>\<open>install_new_flow\<close> leaves the cache as it was, whether it returns or raises:
  the dictionary \<open>flows\<close> after the call is the one before it, so a read of any entry
  right after the call gives what it gave before (a value, or the \<^verbatim>\<open>KeyError\<close> of an
  absent entry).
\<close>

theorem install_new_flow_keeps_flows:
  "flows (snd (FlowManager_install_new_flow st f dpid)) = flows st \<and>
   dict_getitem (flows (snd (FlowManager_install_new_flow st f dpid))) d = dict_getitem (flows st) d"
  by (simp add: FlowManager_install_new_flow_def msg_out_put_def Let_def split: sum.split)

subsection \<open>Requesting the flows of a switch\<close>

text \<open>
  C5: for a dpid that resolves to a switch, \<^verbatim>\<open>dump_flows\<close> returns normally and adds
  exactly one event to the queue: a statistics request of type \<^verbatim>\<open>OFPST_FLOW\<close> with
  the wildcard match \<^verbatim>\<open>Match()\<close>, addressed to the connection of the switch. A second
  call adds one more such event after the first.
\<close>

theorem dump_flows_emits_one_request:
  assumes "resolve (controller st) dpid = Some sw"
  shows "FlowManager_dump_flows st dpid =
           (Inr (), st\<lparr>controller := (controller st)\<lparr>msg_out := msg_out (controller st) @
              [\<lparr>name = ''kytos/of.flow-manager.messages.out.ofpt_stats_request'',
                destination = connection sw,
                message = StatsRequestMessage (StatsRequest OFPST_FLOW Match)\<rparr>]\<rparr>\<rparr>) \<and>
         FlowManager_dump_flows (snd (FlowManager_dump_flows st dpid)) dpid =
           (Inr (), st\<lparr>controller := (controller st)\<lparr>msg_out := msg_out (controller st) @
              [\<lparr>name = ''kytos/of.flow-manager.messages.out.ofpt_stats_request'',
                destination = connection sw,
                message = StatsRequestMessage (StatsRequest OFPST_FLOW Match)\<rparr>,
               \<lparr>name = ''kytos/of.flow-manager.messages.out.ofpt_stats_request'',
                destination = connection sw,
                message = StatsRequestMessage (StatsRequest OFPST_FLOW Match)\<rparr>]\<rparr>\<rparr>)"
  using assms
  by (simp add: FlowManager_dump_flows_def get_switch_by_dpid_def msg_out_put_def)

theorem dump_flows_emits_one_request_witness:
  "resolve (example_controller [''D1''] [(''D1'', 7)]) ''D1'' = Some \<lparr>connection = 7\<rparr> \<and>
   msg_out (controller (snd (FlowManager_dump_flows
     (FlowManager_init (example_controller [''D1''] [(''D1'', 7)])) ''D1''))) =
     [\<lparr>name = ''kytos/of.flow-manager.messages.out.ofpt_stats_request'',
       destination = 7,
       message = StatsRequestMessage (StatsRequest OFPST_FLOW [])\<rparr>] \<and>
   msg_out (controller (snd (FlowManager_dump_flows (snd (FlowManager_dump_flows
     (FlowManager_init (example_controller [''D1''] [(''D1'', 7)])) ''D1'')) ''D1''))) =
     [\<lparr>name = ''kytos/of.flow-manager.messages.out.ofpt_stats_request'',
       destination = 7,
       message = StatsRequestMessage (StatsRequest OFPST_FLOW [])\<rparr>,
      \<lparr>name = ''kytos/of.flow-manager.messages.out.ofpt_stats_request'',
       destination = 7,
       message = StatsRequestMessage (StatsRequest OFPST_FLOW [])\<rparr>]"
  using dump_flows_emits_one_request
    [of "FlowManager_init (example_controller [''D1''] [(''D1'', 7)])" "''D1''" "\<lparr>connection = 7\<rparr>"]
  by (simp add: FlowManager_init_def example_controller_def Match_def FlowManager_dump_flows_def
      get_switch_by_dpid_def msg_out_put_def)

text \<open>
  C8: for a dpid that does not resolve, \<^verbatim>\<open>dump_flows\<close> raises the failure of the switch
  lookup, \<^verbatim>\<open>UnknownSwitchError\<close>. The lookup is the first statement of the method and
  the \<^verbatim>\<open>put\<close> the last, so the state after the raise, the queue included, is the state
  before the call.
\<close>

theorem dump_flows_unknown_switch:
  assumes "resolve (controller st) dpid = None"
  shows "FlowManager_dump_flows st dpid = (Inl UnknownSwitchError, st)"
  using assms by (simp add: FlowManager_dump_flows_def get_switch_by_dpid_def)

theorem dump_flows_unknown_switch_witness:
  "resolve (example_controller [''D1''] [(''D1'', 7)]) ''D9'' = None \<and>
   FlowManager_dump_flows (FlowManager_init (example_controller [''D1''] [(''D1'', 7)])) ''D9'' =
     (Inl UnknownSwitchError, FlowManager_init (example_controller [''D1''] [(''D1'', 7)]))"
  using dump_flows_unknown_switch
    [of "FlowManager_init (example_controller [''D1''] [(''D1'', 7)])" "''D9''"]
  by (simp add: FlowManager_init_def example_controller_def)

subsection \<open>Clearing and deleting flows\<close>

text \<open>
  C2: the specification has \<^verbatim>\<open>clear_flows\<close> emit one DELETE command for each flow
  cached for the switch. The source iterates the cache itself, not the entry of the
  switch: with the flow \<open>F1\<close> cached for \<^verbatim>\<open>D1\<close>, the call for \<^verbatim>\<open>D1\<close> raises
  \<^verbatim>\<open>AttributeError\<close> and the queue stays empty, where one DELETE command was due.
\<close>

theorem clear_flows_defect:
  "FlowManager_clear_flows
     \<lparr>controller = example_controller [''D1''] [(''D1'', 1)],
      flows = [(''D1'', PList [PFlow (example_flow ''F1'')])]\<rparr> ''D1''
   = (Inl AttributeError,
      \<lparr>controller = example_controller [''D1''] [(''D1'', 1)],
       flows = [(''D1'', PList [PFlow (example_flow ''F1'')])]\<rparr>) \<and>
   msg_out (example_controller [''D1''] [(''D1'', 1)]) = []"
  by (simp add: FlowManager_clear_flows_def get_switch_by_dpid_def example_controller_def
      dict_iter_def)

text \<open>
  C3: the specification has \<^verbatim>\<open>delete_flow\<close> emit a DELETE command for each flow
  cached for the switch whose identifier is the given one. The source iterates the
  cache itself here too: with the flows \<open>F7\<close> and \<open>F8\<close> cached for \<^verbatim>\<open>D1\<close>, the call
  for \<open>F7\<close> on \<^verbatim>\<open>D1\<close> raises \<^verbatim>\<open>AttributeError\<close> and the queue stays empty, where
  one DELETE command, for \<open>F7\<close>, was due.
\<close>

theorem delete_flow_defect:
  "FlowManager_delete_flow
     \<lparr>controller = example_controller [''D1''] [(''D1'', 1)],
      flows = [(''D1'', PList [PFlow (example_flow ''F7''), PFlow (example_flow ''F8'')])]\<rparr>
     ''F7'' ''D1''
   = (Inl AttributeError,
      \<lparr>controller = example_controller [''D1''] [(''D1'', 1)],
       flows = [(''D1'', PList [PFlow (example_flow ''F7''), PFlow (example_flow ''F8'')])]\<rparr>) \<and>
   msg_out (example_controller [''D1''] [(''D1'', 1)]) = []"
  by (simp add: FlowManager_delete_flow_def get_switch_by_dpid_def example_controller_def
      dict_iter_def)

subsection \<open>The handlers of Main\<close>

text \<open>
  C6: with no dpid given, and every enumerated switch resolving, \<^verbatim>\<open>insert_flow\<close>
  returns normally and adds to the queue exactly one ADD command for the received flow
  per switch of \<^verbatim>\<open>controller.switches\<close>, in the order of the enumeration, each
  addressed to the connection of its switch.
\<close>

theorem insert_flow_fan_out:
  assumes "from_json json_content = Inr f"
    and "\<forall>d \<in> set (switches (controller st)). resolve (controller st) d = Some (sw d)"
  shows "Main_insert_flow from_json st json_content None =
           (Inr (), st\<lparr>controller := (controller st)\<lparr>msg_out := msg_out (controller st) @
              map (\<lambda>d. \<lparr>name = ''kytos/of.flow-manager.messages.out.ofpt_flow_mod'',
                         destination = connection (sw d),
                         message = FlowModMessage \<lparr>command = OFPFC_ADD, flow_of = f\<rparr>\<rparr>)
                  (switches (controller st))\<rparr>\<rparr>)"
  using install_fan_out [of "switches (controller st)" st sw f] assms
  by (simp add: Main_insert_flow_def add_event_def)

theorem insert_flow_fan_out_witness:
  "Main_insert_flow Inr
     (FlowManager_init (example_controller [''D1'', ''D2''] [(''D1'', 7), (''D2'', 8)]))
     (example_flow ''F1'') None =
   (Inr (),
    \<lparr>controller = \<lparr>switches = [''D1'', ''D2''],
        resolve = resolve (example_controller [''D1'', ''D2''] [(''D1'', 7), (''D2'', 8)]),
        msg_out =
          [\<lparr>name = ''kytos/of.flow-manager.messages.out.ofpt_flow_mod'', destination = 7,
            message = FlowModMessage \<lparr>command = OFPFC_ADD, flow_of = example_flow ''F1''\<rparr>\<rparr>,
           \<lparr>name = ''kytos/of.flow-manager.messages.out.ofpt_flow_mod'', destination = 8,
            message = FlowModMessage \<lparr>command = OFPFC_ADD, flow_of = example_flow ''F1''\<rparr>\<rparr>]\<rparr>,
     flows = []\<rparr>)"
  using insert_flow_fan_out
    [of Inr "example_flow ''F1''" "example_flow ''F1''"
        "FlowManager_init (example_controller [''D1'', ''D2''] [(''D1'', 7), (''D2'', 8)])"
        "\<lambda>d. \<lparr>connection = (if d = ''D1'' then 7 else 8)\<rparr>"]
  by (simp add: FlowManager_init_def example_controller_def)

text \<open>
  C7, as the specification states it, fails on the source. The controller enumerates
  \<^verbatim>\<open>D1\<close> and \<^verbatim>\<open>D2\<close>; the lookup of \<^verbatim>\<open>D1\<close> fails and that of \<^verbatim>\<open>D2\<close> succeeds.
  The insert over all switches raises \<^verbatim>\<open>UnknownSwitchError\<close> to its caller and puts
  nothing on the queue, although the install on \<^verbatim>\<open>D2\<close> alone emits its ADD command:
  \<^verbatim>\<open>D2\<close> was never attempted. The clear and the delete over all switches raise the
  same error to their callers.
\<close>

theorem fan_out_continues_counterexample:
  "fst (Main_insert_flow Inr
          (FlowManager_init (example_controller [''D1'', ''D2''] [(''D2'', 8)]))
          (example_flow ''F1'') None) = Inl UnknownSwitchError \<and>
   msg_out (controller (snd (Main_insert_flow Inr
          (FlowManager_init (example_controller [''D1'', ''D2''] [(''D2'', 8)]))
          (example_flow ''F1'') None))) = [] \<and>
   msg_out (controller (snd (FlowManager_install_new_flow
          (FlowManager_init (example_controller [''D1'', ''D2''] [(''D2'', 8)]))
          (example_flow ''F1'') ''D2''))) =
     [\<lparr>name = ''kytos/of.flow-manager.messages.out.ofpt_flow_mod'', destination = 8,
       message = FlowModMessage \<lparr>command = OFPFC_ADD, flow_of = example_flow ''F1''\<rparr>\<rparr>] \<and>
   fst (Main_clear_flows
          (FlowManager_init (example_controller [''D1'', ''D2''] [(''D2'', 8)])) None)
     = Inl UnknownSwitchError \<and>
   fst (Main_delete_flow
          (FlowManager_init (example_controller [''D1'', ''D2''] [(''D2'', 8)])) ''F1'' None)
     = Inl UnknownSwitchError"
  by (simp add: Main_insert_flow_def Main_clear_flows_def Main_delete_flow_def
      FlowManager_install_new_flow_def FlowManager_clear_flows_def FlowManager_delete_flow_def
      get_switch_by_dpid_def FlowManager_init_def example_controller_def msg_out_put_def
      as_flow_mod_def)

text \<open>
  C7, amended: an operation over all switches (insert, clear, delete with no dpid)
  makes its per-switch calls one after the other in the order of
  \<^verbatim>\<open>controller.switches\<close>, and the first call that raises ends it. When the
  enumeration is \<open>pre @ d # post\<close>, the calls for \<open>pre\<close> return normally and the call
  for \<open>d\<close> raises \<open>e\<close>, the operation raises \<open>e\<close> to its caller in the state that
  failing call left: the switches of \<open>pre\<close> have been processed and no switch of
  \<open>post\<close> is attempted.
\<close>

theorem fan_out_stops_at_first_failure:
  assumes "switches (controller st) = pre @ d # post"
  shows "(from_json json_content = Inr f \<longrightarrow>
          for_each_switch (\<lambda>s x. FlowManager_install_new_flow s f x) pre st = (Inr (), st1) \<longrightarrow>
          FlowManager_install_new_flow st1 f d = (Inl e1, st1') \<longrightarrow>
          Main_insert_flow from_json st json_content None = (Inl e1, st1')) \<and>
         (for_each_switch FlowManager_clear_flows pre st = (Inr (), st2) \<longrightarrow>
          FlowManager_clear_flows st2 d = (Inl e2, st2') \<longrightarrow>
          Main_clear_flows st None = (Inl e2, st2')) \<and>
         (for_each_switch (\<lambda>s x. FlowManager_delete_flow s fid x) pre st = (Inr (), st3) \<longrightarrow>
          FlowManager_delete_flow st3 fid d = (Inl e3, st3') \<longrightarrow>
          Main_delete_flow st fid None = (Inl e3, st3'))"
  using assms
  by (simp add: Main_insert_flow_def Main_clear_flows_def Main_delete_flow_def
      for_each_switch_first_failure)

theorem fan_out_stops_at_first_failure_witness:
  "Main_insert_flow Inr
     (FlowManager_init (example_controller [''D1'', ''D2'', ''D3''] [(''D1'', 7), (''D3'', 9)]))
     (example_flow ''F1'') None =
   (Inl UnknownSwitchError,
    msg_out_put
      (FlowManager_init (example_controller [''D1'', ''D2'', ''D3''] [(''D1'', 7), (''D3'', 9)]))
      \<lparr>name = ''kytos/of.flow-manager.messages.out.ofpt_flow_mod'', destination = 7,
       message = FlowModMessage \<lparr>command = OFPFC_ADD, flow_of = example_flow ''F1''\<rparr>\<rparr>) \<and>
   Main_clear_flows
     (FlowManager_init (example_controller [''D1'', ''D2'', ''D3''] [(''D1'', 7), (''D3'', 9)])) None =
   (Inl UnknownSwitchError,
    FlowManager_init (example_controller [''D1'', ''D2'', ''D3''] [(''D1'', 7), (''D3'', 9)])) \<and>
   Main_delete_flow
     (FlowManager_init (example_controller [''D1'', ''D2'', ''D3''] [(''D1'', 7), (''D3'', 9)]))
     ''F1'' None =
   (Inl UnknownSwitchError,
    FlowManager_init (example_controller [''D1'', ''D2'', ''D3''] [(''D1'', 7), (''D3'', 9)]))"
  using fan_out_stops_at_first_failure
    [of "FlowManager_init (example_controller [''D1'', ''D2'', ''D3''] [(''D1'', 7), (''D3'', 9)])"
        "[''D1'']" "''D2''" "[''D3'']" Inr "example_flow ''F1''" "example_flow ''F1''"
        "msg_out_put
          (FlowManager_init (example_controller [''D1'', ''D2'', ''D3''] [(''D1'', 7), (''D3'', 9)]))
          \<lparr>name = ''kytos/of.flow-manager.messages.out.ofpt_flow_mod'', destination = 7,
           message = FlowModMessage \<lparr>command = OFPFC_ADD, flow_of = example_flow ''F1''\<rparr>\<rparr>"
        UnknownSwitchError
        "msg_out_put
          (FlowManager_init (example_controller [''D1'', ''D2'', ''D3''] [(''D1'', 7), (''D3'', 9)]))
          \<lparr>name = ''kytos/of.flow-manager.messages.out.ofpt_flow_mod'', destination = 7,
           message = FlowModMessage \<lparr>command = OFPFC_ADD, flow_of = example_flow ''F1''\<rparr>\<rparr>"
        "FlowManager_init (example_controller [''D1'', ''D2'', ''D3''] [(''D1'', 7), (''D3'', 9)])"
        UnknownSwitchError
        "FlowManager_init (example_controller [''D1'', ''D2'', ''D3''] [(''D1'', 7), (''D3'', 9)])"
        "''F1''"
        "FlowManager_init (example_controller [''D1'', ''D2'', ''D3''] [(''D1'', 7), (''D3'', 9)])"
        UnknownSwitchError
        "FlowManager_init (example_controller [''D1'', ''D2'', ''D3''] [(''D1'', 7), (''D3'', 9)])"]
  by (simp add: FlowManager_install_new_flow_def FlowManager_clear_flows_def
      FlowManager_delete_flow_def get_switch_by_dpid_def FlowManager_init_def
      example_controller_def msg_out_put_def as_flow_mod_def dict_iter_def)

text \<open>
  C10: \<^verbatim>\<open>retrieve_flows\<close> for a dpid that has no entry in the cache raises
  \<^verbatim>\<open>KeyError\<close>; it does not return an empty list. With no dpid it returns normally,
  with one element per entry of the cache: the cached values in the order of the keys
  (the keys of a dictionary are distinct).
\<close>

theorem retrieve_flows_absent_raises:
  "(map_of (flows st) d = None \<longrightarrow> Main_retrieve_flows st (Some d) = Inl KeyError) \<and>
   (distinct (map fst (flows st)) \<longrightarrow> Main_retrieve_flows st None = Inr (map snd (flows st)))"
proof (intro conjI impI)
  assume "map_of (flows st) d = None"
  then show "Main_retrieve_flows st (Some d) = Inl KeyError"
    by (simp add: Main_retrieve_flows_def dict_getitem_def)
next
  assume keys: "distinct (map fst (flows st))"
  have "retrieve_flows_loop (flows st) [] (map fst (flows st)) =
          Inr ([] @ map (\<lambda>k. the (map_of (flows st) k)) (map fst (flows st)))"
    by (rule retrieve_flows_loop_keys) simp
  also have "\<dots> = Inr (map snd (flows st))"
    using keys by (simp only: map_of_keys_distinct append_Nil)
  finally show "Main_retrieve_flows st None = Inr (map snd (flows st))"
    by (simp add: Main_retrieve_flows_def)
qed

theorem retrieve_flows_absent_raises_witness:
  "Main_retrieve_flows
     \<lparr>controller = example_controller [] [],
      flows = [(''D1'', PList [PFlow (example_flow ''F1'')]), (''D2'', PList [])]\<rparr> (Some ''D3'')
     = Inl KeyError \<and>
   Main_retrieve_flows
     \<lparr>controller = example_controller [] [],
      flows = [(''D1'', PList [PFlow (example_flow ''F1'')]), (''D2'', PList [])]\<rparr> None
     = Inr [PList [PFlow (example_flow ''F1'')], PList []] \<and>
   Main_retrieve_flows (FlowManager_init (example_controller [] [])) (Some ''D1'') = Inl KeyError"
  using retrieve_flows_absent_raises
    [of "\<lparr>controller = example_controller [] [],
         flows = [(''D1'', PList [PFlow (example_flow ''F1'')]), (''D2'', PList [])]\<rparr>" "''D3''"]
    retrieve_flows_absent_raises [of "FlowManager_init (example_controller [] [])" "''D1''"]
  by (simp add: FlowManager_init_def)

end
